theory Spec2Isabelle
  imports Main
begin

section \<open>String primitives of the host language\<close>

text \<open>
  The geocoding service works on JavaScript strings. They are modelled as \<open>string\<close>
  (lists of 8-bit characters), so the development covers ASCII text: \<open>toLowerCase\<close>
  maps A-Z to a-z and leaves every other character alone, and the white space of
  \<open>trim\<close> and of the regular expression class \<open>\s\<close> is tab, line feed, vertical tab,
  form feed, carriage return and space.
\<close>

definition upperChars :: string where
  "upperChars = ''ABCDEFGHIJKLMNOPQRSTUVWXYZ''"

definition lowerChars :: string where
  "lowerChars = ''abcdefghijklmnopqrstuvwxyz''"

definition digitChars :: string where
  "digitChars = ''0123456789''"

definition toLowerChar :: "char \<Rightarrow> char" where
  "toLowerChar c = (case map_of (zip upperChars lowerChars) c of Some l \<Rightarrow> l | None \<Rightarrow> c)"

definition toLowerCase :: "string \<Rightarrow> string" where
  "toLowerCase s = map toLowerChar s"

definition isSpace :: "char \<Rightarrow> bool" where
  "isSpace c = (c \<in> set [CHR 0x09, CHR 0x0A, CHR 0x0B, CHR 0x0C, CHR 0x0D, CHR '' ''])"

definition isDigit :: "char \<Rightarrow> bool" where
  "isDigit c = (c \<in> set digitChars)"

text \<open>The class \<open>\w\<close> of the regular expression engine, which decides where \<open>\b\<close> holds.\<close>

definition isWordChar :: "char \<Rightarrow> bool" where
  "isWordChar c = (c \<in> set (upperChars @ lowerChars @ digitChars @ ''_''))"

definition trim :: "string \<Rightarrow> string" where
  "trim s = rev (dropWhile isSpace (rev (dropWhile isSpace s)))"

definition startsWith :: "string \<Rightarrow> string \<Rightarrow> bool" where
  "startsWith s p = (take (length p) s = p)"

fun includesStr :: "string \<Rightarrow> string \<Rightarrow> bool" where
  "includesStr [] p = (p = [])"
| "includesStr (c # cs) p = (startsWith (c # cs) p \<or> includesStr cs p)"

text \<open>\<open>s.split(',')\<close>: the pieces between the commas, empty pieces included.\<close>

fun splitComma :: "string \<Rightarrow> string list" where
  "splitComma [] = [[]]"
| "splitComma (c # cs) =
     (if c = CHR '','' then [] # splitComma cs
      else (case splitComma cs of
              [] \<Rightarrow> [[c]]
            | p # ps \<Rightarrow> (c # p) # ps))"

text \<open>
  \<open>s.split(/\s+/)\<close>: the pieces between the maximal runs of white space. A string that
  starts (or ends) with white space gets an empty first (or last) piece, and the empty
  string gives one empty piece.
\<close>

function splitWs :: "string \<Rightarrow> string list" where
  "splitWs [] = [[]]"
| "splitWs (c # cs) =
     (if isSpace c then [] # splitWs (dropWhile isSpace cs)
      else (case splitWs cs of
              [] \<Rightarrow> [[c]]
            | p # ps \<Rightarrow> (c # p) # ps))"
  by pat_completeness auto
termination
  by (relation "measure length") (auto simp: le_imp_less_Suc length_dropWhile_le)

text \<open>\<open>xs.join(sep)\<close>.\<close>

fun join :: "string \<Rightarrow> string list \<Rightarrow> string" where
  "join sep [] = []"
| "join sep [x] = x"
| "join sep (x # y # ys) = x @ sep @ join sep (y # ys)"

text \<open>
  A field of a JavaScript object that may be absent is a \<open>string option\<close>; in a
  condition the absent field and the empty string are both false.
\<close>

definition truthy :: "string \<Rightarrow> bool" where
  "truthy s = (s \<noteq> [])"

definition truthyO :: "string option \<Rightarrow> bool" where
  "truthyO v = (case v of None \<Rightarrow> False | Some s \<Rightarrow> truthy s)"

text \<open>\<open>v || ''\<close> on such a field.\<close>

definition orEmpty :: "string option \<Rightarrow> string" where
  "orEmpty v = (case v of None \<Rightarrow> [] | Some s \<Rightarrow> s)"

text \<open>\<open>a || b\<close> on two such fields: the first one that is true, else the second.\<close>

definition orElse :: "string option \<Rightarrow> string option \<Rightarrow> string option" where
  "orElse a b = (if truthyO a then a else b)"

text \<open>The double quote, kept apart so that the messages can be written down.\<close>

definition dq :: string where
  "dq = [CHR 0x22]"

text \<open>Decimal text of a number, as a template literal prints an integer.\<close>

definition digitOf :: "nat \<Rightarrow> char" where
  "digitOf d = digitChars ! (d mod 10)"

fun showNat :: "nat \<Rightarrow> string" where
  "showNat n = (if n < 10 then [digitOf n] else showNat (n div 10) @ [digitOf n])"

definition showInt :: "int \<Rightarrow> string" where
  "showInt i = (if i < 0 then CHR ''-'' # showNat (nat (- i)) else showNat (nat i))"

section \<open>FuzzyMatcher\<close>

text \<open>
  \<open>levenshteinDistance\<close> fills a matrix with one row per character of \<open>str2\<close> and one
  column per character of \<open>str1\<close>. Row 0 is \<open>0..|str1|\<close>; \<open>fillRow\<close> computes the cells
  1.. of row \<open>j\<close> from left to right out of the row above, and the answer is the last
  cell of the last row.
\<close>

fun fillRow :: "char \<Rightarrow> (char \<times> nat \<times> nat) list \<Rightarrow> nat \<Rightarrow> nat list" where
  "fillRow c [] left = []"
| "fillRow c ((x, diag, up) # rest) left =
     (let indicator = (if x = c then 0 else 1);
          v = min (min (left + 1) (up + 1)) (diag + indicator)
      in v # fillRow c rest v)"

definition nextRow :: "string \<Rightarrow> nat list \<times> nat \<Rightarrow> char \<Rightarrow> nat list \<times> nat" where
  "nextRow str1 st c =
     (case st of (prev, j) \<Rightarrow>
        (j # fillRow c (zip str1 (zip prev (tl prev))) j, j + 1))"

definition levenshteinDistance :: "string \<Rightarrow> string \<Rightarrow> nat" where
  "levenshteinDistance str1 str2 =
     last (fst (foldl (nextRow str1) ([0 ..< length str1 + 1], 1) str2))"

definition fuzzyMatch :: "string \<Rightarrow> string \<Rightarrow> bool" where
  "fuzzyMatch str1 str2 =
     (if \<not> truthy str1 \<or> \<not> truthy str2 then False
      else
        let s1 = trim (toLowerCase str1);
            s2 = trim (toLowerCase str2)
        in if s1 = s2 then True
           else
             let s1Words = splitWs s1;
                 s2Words = splitWs s2
             in if length s1Words = length s2Words \<and> (includesStr s1 s2 \<or> includesStr s2 s1) then True
                else if (startsWith s2 (s1 @ '' '') \<or> startsWith s1 (s2 @ '' ''))
                        \<and> (length s1Words > 1 \<or> length s2Words > 1) then True
                else if length s1Words = length s2Words \<and> levenshteinDistance s1 s2 \<le> 2 then True
                else False)"

section \<open>Data model\<close>

text \<open>
  One result of the provider (\<open>OpenCageResult\<close>): the components bag with its optional
  fields, the confidence and the formatted address. The selection reads nothing else.
  The results reach \<open>findBestResult\<close> as \<open>any[]\<close>, so the confidence may be
  missing or not a number: that is \<open>None\<close>, and every comparison with it is false.
\<close>

record components =
  road :: "string option"
  square :: "string option"
  city :: "string option"
  town :: "string option"
  village :: "string option"
  hamlet :: "string option"
  county :: "string option"
  state :: "string option"
  state_district :: "string option"
  postcode :: "string option"
  country_code :: "string option"

record candidate =
  components :: components
  confidence :: "int option"
  formatted :: string

text \<open>
  The object built by \<open>parseAddress\<close>. Street, city and postcode are there in every
  layout; province, county and country are absent in some. The fields carry the prefix
  \<open>ap_\<close> to keep them apart from those of the components bag.
\<close>

record addressParts =
  ap_street :: string
  ap_city :: string
  ap_province :: "string option"
  ap_county :: "string option"
  ap_postcode :: string
  ap_country :: "string option"

text \<open>
  What \<open>findBestResult\<close> hands back: a result of the list, \<open>null\<close>, or an \<open>Error\<close>
  thrown with a message.
\<close>

datatype outcome = Found candidate | NotFound | Thrown string

section \<open>AddressParser\<close>

definition roadTypes :: "string list" where
  "roadTypes = [''via'', ''viale'', ''piazza'', ''corso'', ''largo'', ''vicolo'', ''strada'', ''piazzale'']"

text \<open>
  The street segment: with more than two words, a second word that is a road type after
  a first one is spliced out; otherwise the segment stays as it is.
\<close>

definition normalizeStreet :: "string \<Rightarrow> string" where
  "normalizeStreet street =
     (let streetWords = splitWs street in
      if length streetWords > 2
         \<and> toLowerCase (streetWords ! 0) \<in> set roadTypes
         \<and> toLowerCase (streetWords ! 1) \<in> set roadTypes
      then join '' '' (streetWords ! 0 # drop 2 streetWords)
      else if length streetWords > 2
         \<and> toLowerCase (streetWords ! 0) \<in> set roadTypes
         \<and> toLowerCase (streetWords ! 0) = toLowerCase (streetWords ! 1)
      then join '' '' (drop 1 streetWords)
      else street)"

text \<open>
  The pattern \<open>/\b\d{5}\b/\<close>: the first five digits in a row with no word character
  right before and none right after. \<open>prev\<close> is the character before the position.
\<close>

fun postcodeMatch :: "char option \<Rightarrow> string \<Rightarrow> string option" where
  "postcodeMatch prev [] = None"
| "postcodeMatch prev (c # cs) =
     (if (case prev of None \<Rightarrow> True | Some p \<Rightarrow> \<not> isWordChar p)
         \<and> length (c # cs) \<ge> 5
         \<and> list_all isDigit (take 5 (c # cs))
         \<and> (case drop 5 (c # cs) of [] \<Rightarrow> True | d # _ \<Rightarrow> \<not> isWordChar d)
      then Some (take 5 (c # cs))
      else postcodeMatch (Some c) cs)"

definition postcodeRegexMatch :: "string \<Rightarrow> string option" where
  "postcodeRegexMatch s = postcodeMatch None s"

definition postcodeRegexTest :: "string \<Rightarrow> bool" where
  "postcodeRegexTest s = (postcodeRegexMatch s \<noteq> None)"

text \<open>The scan over the segments: the match of the first segment that has one.\<close>

fun scanPostcode :: "string list \<Rightarrow> string" where
  "scanPostcode [] = []"
| "scanPostcode (part # parts) =
     (case postcodeRegexMatch part of Some m \<Rightarrow> m | None \<Rightarrow> scanPostcode parts)"

text \<open>\<open>parts[i] || ''\<close>.\<close>

definition partAt :: "string list \<Rightarrow> nat \<Rightarrow> string" where
  "partAt parts i = (if i < length parts then parts ! i else [])"

definition parseAddress :: "string \<Rightarrow> addressParts" where
  "parseAddress address =
     (let parts0 = map trim (splitComma address);
          parts = (case parts0 of [] \<Rightarrow> [] | street # rest \<Rightarrow> normalizeStreet street # rest);
          postcode = scanPostcode parts;
          lastOr = (\<lambda>i. if truthy postcode then postcode
                         else if postcodeRegexTest (partAt parts i) then partAt parts i else [])
      in if length parts = 4 then
           \<lparr> ap_street = partAt parts 0, ap_city = partAt parts 1,
             ap_province = Some (partAt parts 2), ap_county = Some (partAt parts 2),
             ap_postcode = lastOr 3, ap_country = None \<rparr>
         else if length parts = 3 then
           (let lastIsPostcode = postcodeRegexTest (partAt parts 2) in
            \<lparr> ap_street = partAt parts 0, ap_city = partAt parts 1,
              ap_province = Some (if lastIsPostcode then [] else partAt parts 2),
              ap_county = Some (if lastIsPostcode then [] else partAt parts 2),
              ap_postcode = lastOr 2, ap_country = None \<rparr>)
         else if length parts = 5 then
           \<lparr> ap_street = partAt parts 1, ap_city = partAt parts 2,
             ap_province = None, ap_county = Some (partAt parts 3),
             ap_postcode = lastOr 4, ap_country = Some (partAt parts 0) \<rparr>
         else
           \<lparr> ap_street = partAt parts 0, ap_city = partAt parts 1,
             ap_province = Some (partAt parts 2), ap_county = Some (partAt parts 2),
             ap_postcode = postcode, ap_country = None \<rparr>)"

section \<open>RoadTypeNormalizer\<close>

definition stripRoadType :: "string \<Rightarrow> string" where
  "stripRoadType rd =
     (if \<not> truthy rd then []
      else
        let normalized = toLowerCase (trim rd) in
        case find (\<lambda>t. startsWith normalized (t @ '' '')) roadTypes of
          Some t \<Rightarrow> trim (drop (length t + 1) normalized)
        | None \<Rightarrow> normalized)"

section \<open>MismatchTable\<close>

definition mismatches :: "(string \<times> string list) list" where
  "mismatches =
     [(''firenze'', [''milano'', ''milan'']),
      (''rome'', [''milano'', ''milan'']),
      (''roma'', [''milano'', ''milan'']),
      (''napoli'', [''milano'', ''milan'']),
      (''naples'', [''milano'', ''milan'']),
      (''torino'', [''roma'', ''rome'']),
      (''turin'', [''roma'', ''rome'']),
      (''palermo'', [''milano'', ''milan'', ''roma'', ''rome'']),
      (''catania'', [''milano'', ''milan'', ''roma'', ''rome''])]"

definition majorProvinces :: "(string \<times> string list) list" where
  "majorProvinces =
     [(''milano'', [''milan'', ''mi'']),
      (''roma'', [''rome'', ''rm'']),
      (''napoli'', [''naples'', ''na'']),
      (''torino'', [''turin'', ''to'']),
      (''firenze'', [''florence'', ''fi'']),
      (''bologna'', [''bo'']),
      (''venezia'', [''venice'', ''ve''])]"

text \<open>
  \<open>mismatches\<close> is an object literal, so the lookup \<open>mismatches[cityLower]\<close> also finds
  what every object inherits. Two inherited keys are written in lower case only; for
  them the lookup gives a value without an \<open>includes\<close> method and the call throws a
  \<open>TypeError\<close>. Its message is the one of the V8 engine.
\<close>

definition inheritedKeys :: "string list" where
  "inheritedKeys = [''constructor'', ''__proto__'']"

definition notAFunction :: string where
  "notAFunction = ''mismatches[cityLower].includes is not a function''"

text \<open>The result is \<open>Inl\<close> of the message when the call throws, else \<open>Inr\<close> of the answer.\<close>

definition checkKnownMismatches :: "string \<Rightarrow> string \<Rightarrow> string \<Rightarrow> string + bool" where
  "checkKnownMismatches geocodedCity inputProvince geocodedProvince =
     (let cityLower = toLowerCase geocodedCity;
          provinceLower = toLowerCase inputProvince
      in case map_of mismatches cityLower of
           Some forbidden \<Rightarrow> Inr (provinceLower \<in> set forbidden)
         | None \<Rightarrow>
             if cityLower \<in> set inheritedKeys then Inl notAFunction
             else
               let inputProvinceLower = toLowerCase inputProvince;
                   geocodedProvinceLower = toLowerCase geocodedProvince
               in Inr (list_ex (\<lambda>(province, aliases).
                          includesStr inputProvinceLower province
                          \<and> \<not> (list_ex (\<lambda>alias. includesStr geocodedProvinceLower (toLowerCase alias)) aliases
                                \<or> includesStr geocodedProvinceLower province))
                        majorProvinces))"

section \<open>Validation of one candidate\<close>

type_synonym mismatchLookup = "string \<Rightarrow> string \<Rightarrow> string \<Rightarrow> string + bool"

text \<open>\<open>components.city || components.town || components.village || ''\<close>.\<close>

definition geocodedCityOf :: "components \<Rightarrow> string" where
  "geocodedCityOf c = orEmpty (orElse (city c) (orElse (town c) (village c)))"

definition postcodeMismatchError :: "string \<Rightarrow> string \<Rightarrow> string" where
  "postcodeMismatchError geocodedPostcode inputPostcode =
     ''VALIDATION_ERROR: Postcode mismatch: found '' @ dq @ geocodedPostcode @ dq
       @ '' instead of '' @ dq @ inputPostcode @ dq @ ''. Please verify the entered address.''"

text \<open>
  \<open>validateAddressMatch\<close>, with the lookup in the mismatch table as a parameter \<open>km\<close>
  (the service passes \<open>checkKnownMismatches\<close>). \<open>Inl\<close> is the message of a thrown error.
\<close>

definition validateAddressMatch :: "mismatchLookup \<Rightarrow> components \<Rightarrow> addressParts \<Rightarrow> string + bool" where
  "validateAddressMatch km c ap =
     (if country_code c \<noteq> Some ''it'' then Inr False
      else
        let geocodedCity = geocodedCityOf c;
            geocodedProvince = orEmpty (county c);
            geocodedRegion = orEmpty (orElse (state c) (state_district c));
            geocodedPostcode = orEmpty (postcode c)
        in if \<not> fuzzyMatch geocodedCity (ap_city ap) then Inr False
           else if truthyO (ap_province ap)
                   \<and> \<not> (fuzzyMatch geocodedProvince (orEmpty (ap_province ap))
                         \<or> fuzzyMatch geocodedRegion (orEmpty (ap_province ap)))
           then (case km geocodedCity (orEmpty (ap_province ap)) geocodedProvince of
                   Inl e \<Rightarrow> Inl e
                 | Inr knownMismatches \<Rightarrow> Inr False)
           else if truthy (ap_postcode ap) \<and> truthy geocodedPostcode
                   \<and> geocodedPostcode \<noteq> ap_postcode ap
           then Inl (postcodeMismatchError geocodedPostcode (ap_postcode ap))
           else Inr True)"

section \<open>CandidateSelector\<close>

subsection \<open>The branches on postcode and street\<close>

definition hasRoadOrSquare :: "candidate \<Rightarrow> bool" where
  "hasRoadOrSquare r = (truthyO (road (components r)) \<or> truthyO (square (components r)))"

definition postcodeAndRoadMatch :: "addressParts \<Rightarrow> candidate \<Rightarrow> bool" where
  "postcodeAndRoadMatch ap r =
     (truthyO (postcode (components r))
      \<and> postcode (components r) = Some (ap_postcode ap)
      \<and> truthyO (road (components r))
      \<and> fuzzyMatch (orEmpty (road (components r))) (ap_street ap))"

definition postcodeOnlyMatch :: "addressParts \<Rightarrow> candidate \<Rightarrow> bool" where
  "postcodeOnlyMatch ap r =
     (truthyO (postcode (components r)) \<and> postcode (components r) = Some (ap_postcode ap))"

definition cityMatchStrict :: "string \<Rightarrow> string \<Rightarrow> bool" where
  "cityMatchStrict geoName inputName =
     (if \<not> truthy geoName \<or> \<not> truthy inputName then False
      else
        let geoWords = splitWs (trim (toLowerCase geoName));
            inputWords = splitWs (trim (toLowerCase inputName))
        in if length geoWords > length inputWords then
             (if join '' '' (take (length inputWords) geoWords) = join '' '' inputWords then False
              else False)
           else fuzzyMatch geoName inputName)"

text \<open>\<open>field && cityMatchStrict(field, city)\<close> for one of the four place fields.\<close>

definition placeMatches :: "string option \<Rightarrow> string \<Rightarrow> bool" where
  "placeMatches field inputCity = (truthyO field \<and> cityMatchStrict (orEmpty field) inputCity)"

definition roadMatches :: "string \<Rightarrow> candidate \<Rightarrow> bool" where
  "roadMatches inputStreetStripped r =
     (truthyO (road (components r))
      \<and> fuzzyMatch (stripRoadType (orEmpty (road (components r)))) inputStreetStripped)"

definition roadAndCityMatches :: "string \<Rightarrow> string \<Rightarrow> candidate \<Rightarrow> bool" where
  "roadAndCityMatches inputStreetStripped inputCity r =
     (roadMatches inputStreetStripped r
      \<and> (placeMatches (city (components r)) inputCity
           \<or> placeMatches (town (components r)) inputCity
           \<or> placeMatches (village (components r)) inputCity
           \<or> placeMatches (hamlet (components r)) inputCity))"

definition noPostcodeError :: "addressParts \<Rightarrow> string" where
  "noPostcodeError ap =
     ''VALIDATION_ERROR: No result found with postcode '' @ ap_postcode ap
       @ '' and a valid road or square. Please verify the entered address.''"

definition noStreetError :: "addressParts \<Rightarrow> string" where
  "noStreetError ap =
     ''VALIDATION_ERROR: No result found with street name '' @ dq @ ap_street ap @ dq
       @ ''. Please verify the entered address and insert the postcode if not present.''"

definition noStreetCityError :: "addressParts \<Rightarrow> candidate list \<Rightarrow> string" where
  "noStreetCityError ap roadMatchesFound =
     (let suggestion =
            (case roadMatchesFound of
               [] \<Rightarrow> []
             | r # _ \<Rightarrow>
                 let c = components r;
                     suggestedCity = orEmpty (orElse (city c) (orElse (town c) (orElse (village c) (hamlet c))))
                 in if truthy suggestedCity \<and> toLowerCase suggestedCity \<noteq> toLowerCase (ap_city ap)
                    then '' Did you mean '' @ dq @ ap_street ap @ '', '' @ suggestedCity @ dq @ ''?''
                    else []);
          postcodeSuggestion =
            (if \<not> truthy (ap_postcode ap) then '' Try adding a postcode to improve accuracy.'' else [])
      in ''VALIDATION_ERROR: No result found with street name '' @ dq @ ap_street ap @ dq
           @ '' and city '' @ dq @ ap_city ap @ dq @ ''.'' @ suggestion @ postcodeSuggestion
           @ '' Please verify the entered address.'')"

text \<open>
  The first part of \<open>findBestResult\<close>, up to the end of the block guarded by a non-empty
  list: \<open>Some\<close> of what it returns or throws, \<open>None\<close> when control goes on to the scoring.
\<close>

definition selectByPostcodeOrStreet :: "candidate list \<Rightarrow> addressParts \<Rightarrow> outcome option" where
  "selectByPostcodeOrStreet results ap =
     (if results = [] then None
      else
        let filteredResults = filter hasRoadOrSquare results in
        if truthy (ap_postcode ap) then
          (case (if truthy (ap_street ap) then find (postcodeAndRoadMatch ap) filteredResults else None) of
             Some exactPostcodeAndRoad \<Rightarrow> Some (Found exactPostcodeAndRoad)
           | None \<Rightarrow>
               (case find (postcodeOnlyMatch ap) filteredResults of
                  Some exactPostcode \<Rightarrow> Some (Found exactPostcode)
                | None \<Rightarrow> Some (Thrown (noPostcodeError ap))))
        else if truthy (ap_street ap) then
          (let inputStreetStripped = stripRoadType (ap_street ap) in
           if truthy (ap_city ap) then
             (case find (roadAndCityMatches inputStreetStripped (ap_city ap)) filteredResults of
                Some roadAndCityMatch \<Rightarrow> Some (Found roadAndCityMatch)
              | None \<Rightarrow>
                  Some (Thrown (noStreetCityError ap
                                  (filter (roadMatches inputStreetStripped) filteredResults))))
           else
             (case find (roadMatches inputStreetStripped) filteredResults of
                Some roadMatch \<Rightarrow> Some (Found roadMatch)
              | None \<Rightarrow> Some (Thrown (noStreetError ap))))
        else
          (case filteredResults of
             r # _ \<Rightarrow> Some (Found r)
           | [] \<Rightarrow> None))"

subsection \<open>The scoring loop\<close>

record scored =
  result :: candidate
  score :: "int option"

definition lowConfidenceError :: "int \<Rightarrow> string" where
  "lowConfidenceError c = ''Low confidence ('' @ showInt c @ ''/10)''"

definition mismatchError :: "string \<Rightarrow> string \<Rightarrow> string \<Rightarrow> string" where
  "mismatchError what found wanted =
     what @ '' mismatch: found '' @ dq @ found @ dq @ '' instead of '' @ dq @ wanted @ dq"

definition invalidCombinationError :: "addressParts \<Rightarrow> string" where
  "invalidCombinationError ap =
     ''Invalid geographical combination: '' @ dq @ ap_city ap @ dq
       @ '' is not in the province of '' @ dq @ orEmpty (ap_province ap) @ dq"

text \<open>
  A result whose country code is there and is not Italy's: \<open>Inl\<close> of the diagnostic that
  ends its turn, else \<open>Inr\<close> of its match score.
\<close>

definition scoreForeign :: "addressParts \<Rightarrow> candidate \<Rightarrow> string + int" where
  "scoreForeign ap r =
     (let c = components r;
          geocodedCity = geocodedCityOf c;
          geocodedPostcode = orEmpty (postcode c);
          geocodedCounty = orEmpty (county c);
          inputPostcode = ap_postcode ap;
          inputCounty = orEmpty (ap_county ap);
          cityBoth = (truthy geocodedCity \<and> truthy (ap_city ap));
          postcodeBoth = (truthy inputPostcode \<and> truthy geocodedPostcode);
          countyBoth = (truthy inputCounty \<and> truthy geocodedCounty)
      in if cityBoth \<and> \<not> fuzzyMatch geocodedCity (ap_city ap)
         then Inl (mismatchError ''City'' geocodedCity (ap_city ap))
         else if postcodeBoth \<and> toLowerCase geocodedPostcode \<noteq> toLowerCase inputPostcode
         then Inl (mismatchError ''Postcode'' geocodedPostcode inputPostcode)
         else if countyBoth \<and> \<not> fuzzyMatch geocodedCounty inputCounty
         then Inl (mismatchError ''County'' geocodedCounty inputCounty)
         else Inr ((if cityBoth then 1 else 0) + (if postcodeBoth then 1 else 0)
                   + (if countyBoth then 1 else 0)))"

text \<open>
  Any other result goes through the \<open>try\<close> block: the diagnostics it pushes, and its
  match score when it is valid. A thrown error is caught and its message pushed.
\<close>

definition scoreItalian :: "mismatchLookup \<Rightarrow> addressParts \<Rightarrow> candidate \<Rightarrow> string list \<times> int option" where
  "scoreItalian km ap r =
     (let c = components r;
          geocodedCity = geocodedCityOf c;
          geocodedProvince = orEmpty (county c)
      in case validateAddressMatch km c ap of
           Inl e \<Rightarrow> ([e], None)
         | Inr True \<Rightarrow>
             ([], Some ((if fuzzyMatch geocodedCity (ap_city ap) then 1 else 0)
                        + (if truthyO (ap_province ap)
                              \<and> fuzzyMatch geocodedProvince (orEmpty (ap_province ap)) then 1 else 0)
                        + (if truthy (ap_postcode ap) \<and> truthyO (postcode c)
                              \<and> postcode c = Some (ap_postcode ap) then 1 else 0)))
         | Inr False \<Rightarrow>
             (let cityErrors =
                    (if truthy geocodedCity \<and> truthy (ap_city ap)
                        \<and> \<not> fuzzyMatch geocodedCity (ap_city ap)
                     then [mismatchError ''City'' geocodedCity (ap_city ap)] else [])
              in if truthyO (ap_province ap) \<and> truthy geocodedProvince
                    \<and> \<not> fuzzyMatch geocodedProvince (orEmpty (ap_province ap))
                 then (case km geocodedCity (orEmpty (ap_province ap)) geocodedProvince of
                         Inl e \<Rightarrow> (cityErrors @ [e], None)
                       | Inr True \<Rightarrow> (cityErrors @ [invalidCombinationError ap], None)
                       | Inr False \<Rightarrow>
                           (cityErrors
                              @ [mismatchError ''Province'' geocodedProvince (orEmpty (ap_province ap))],
                            None))
                 else (cityErrors, None)))"

text \<open>
  \<open>result.confidence < 9\<close> (with the confidence that the diagnostic prints) and
  \<open>r.confidence >= n\<close>: both false when the confidence is not a number.
  \<open>matchScore + result.confidence\<close> is then not a number either.
\<close>

definition lowConfidence :: "candidate \<Rightarrow> int option" where
  "lowConfidence r =
     (case confidence r of None \<Rightarrow> None | Some c \<Rightarrow> if c < 9 then Some c else None)"

definition confidenceAtLeast :: "int \<Rightarrow> candidate \<Rightarrow> bool" where
  "confidenceAtLeast n r = (case confidence r of None \<Rightarrow> False | Some c \<Rightarrow> n \<le> c)"

definition addConfidence :: "int \<Rightarrow> candidate \<Rightarrow> int option" where
  "addConfidence matchScore r = map_option (\<lambda>c. matchScore + c) (confidence r)"

text \<open>One turn of the loop on the pair (\<open>validationErrors\<close>, \<open>validResults\<close>).\<close>

definition scoreStep ::
  "mismatchLookup \<Rightarrow> addressParts \<Rightarrow> string list \<times> scored list \<Rightarrow> candidate \<Rightarrow> string list \<times> scored list" where
  "scoreStep km ap st r =
     (case st of (validationErrors, validResults) \<Rightarrow>
        case lowConfidence r of
          Some c \<Rightarrow> (validationErrors @ [lowConfidenceError c], validResults)
        | None \<Rightarrow>
            let countryCode = country_code (components r) in
            if truthyO countryCode \<and> toLowerCase (orEmpty countryCode) \<noteq> ''it'' then
              (case scoreForeign ap r of
                 Inl e \<Rightarrow> (validationErrors @ [e], validResults)
               | Inr matchScore \<Rightarrow>
                   (validationErrors,
                    validResults @ [\<lparr> result = r, score = addConfidence matchScore r \<rparr>]))
            else
              (case scoreItalian km ap r of
                 (es, None) \<Rightarrow> (validationErrors @ es, validResults)
               | (es, Some matchScore) \<Rightarrow>
                   (validationErrors @ es,
                    validResults @ [\<lparr> result = r, score = addConfidence matchScore r \<rparr>])))"

fun scoreLoop ::
  "mismatchLookup \<Rightarrow> addressParts \<Rightarrow> candidate list \<Rightarrow> string list \<times> scored list \<Rightarrow> string list \<times> scored list" where
  "scoreLoop km ap [] st = st"
| "scoreLoop km ap (r # rs) st = scoreLoop km ap rs (scoreStep km ap st r)"

text \<open>
  The sort of the valid results with the comparator \<open>(a, b) => b.score - a.score\<close>.
  The sort is stable and descending in the score, so its head is the first valid result
  of highest score. When one of the two scores is not a number the comparator answers
  \<open>NaN\<close>, which the sort reads as 0; the order among such results is then the engine's,
  and the model keeps them in the order of a stable insertion.
\<close>

definition compareScore :: "scored \<Rightarrow> scored \<Rightarrow> int" where
  "compareScore a b =
     (case score a of
        None \<Rightarrow> 0
      | Some x \<Rightarrow> (case score b of None \<Rightarrow> 0 | Some y \<Rightarrow> y - x))"

fun insertScored :: "scored \<Rightarrow> scored list \<Rightarrow> scored list" where
  "insertScored v [] = [v]"
| "insertScored v (w # ws) =
     (if compareScore v w \<le> 0 then v # w # ws else w # insertScored v ws)"

definition sortScored :: "scored list \<Rightarrow> scored list" where
  "sortScored vs = foldr insertScored vs []"

text \<open>What follows the loop.\<close>

definition selectScored :: "candidate list \<Rightarrow> string list \<times> scored list \<Rightarrow> outcome" where
  "selectScored results st =
     (case st of (validationErrors, validResults) \<Rightarrow>
        if validResults \<noteq> [] then Found (result (hd (sortScored validResults)))
        else if validationErrors \<noteq> [] then
          Thrown (''VALIDATION_ERROR: '' @ hd validationErrors @ ''. Please verify the entered address.'')
        else
          (case filter (confidenceAtLeast 8) results of
             r # _ \<Rightarrow> Found r
           | [] \<Rightarrow> NotFound))"

definition scoringFallback :: "mismatchLookup \<Rightarrow> candidate list \<Rightarrow> addressParts \<Rightarrow> outcome" where
  "scoringFallback km results ap = selectScored results (scoreLoop km ap results ([], []))"

subsection \<open>The selection\<close>

definition findBestResultWith :: "mismatchLookup \<Rightarrow> candidate list \<Rightarrow> string \<Rightarrow> outcome" where
  "findBestResultWith km results originalAddress =
     (let addressParts = parseAddress originalAddress in
      case selectByPostcodeOrStreet results addressParts of
        Some out \<Rightarrow> out
      | None \<Rightarrow> scoringFallback km results addressParts)"

definition findBestResult :: "candidate list \<Rightarrow> string \<Rightarrow> outcome" where
  "findBestResult results originalAddress =
     findBestResultWith checkKnownMismatches results originalAddress"

section \<open>The caller's report\<close>

text \<open>
  \<open>geocode\<close> applies the selection to the results of the provider inside a \<open>try\<close>
  block and turns what comes back into a location (built from the chosen result) or an
  error with a tagged message. \<open>reportOutcome\<close> is that block, \<open>geocodeResults\<close> the
  whole callback with its test for an empty list.
\<close>

definition invalidOrNotFound :: string where
  "invalidOrNotFound = ''VALIDATION_ERROR: Invalid or not found address. Please try again.''"

definition noResultsError :: string where
  "noResultsError = ''NO_RESULTS: No results found for this address.''"

definition reportOutcome :: "outcome \<Rightarrow> string + candidate" where
  "reportOutcome out =
     (case out of
        Found validResult \<Rightarrow> Inr validResult
      | NotFound \<Rightarrow> Inl invalidOrNotFound
      | Thrown message \<Rightarrow>
          if startsWith message ''VALIDATION_ERROR:'' then Inl message else Inl invalidOrNotFound)"

definition geocodeResults :: "candidate list \<Rightarrow> string \<Rightarrow> string + candidate" where
  "geocodeResults results address =
     (if results \<noteq> [] then reportOutcome (findBestResult results address)
      else Inl noResultsError)"

section \<open>Notions used to state the properties\<close>

text \<open>The number of words of a name, as \<open>cityMatchStrict\<close> and \<open>fuzzyMatch\<close> count them.\<close>

definition wordCount :: "string \<Rightarrow> nat" where
  "wordCount s = length (splitWs (trim (toLowerCase s)))"

text \<open>An outcome without the text of its message: which result, or that it is an error.\<close>

definition eraseMessage :: "outcome \<Rightarrow> outcome" where
  "eraseMessage out = (case out of Thrown m \<Rightarrow> Thrown [] | _ \<Rightarrow> out)"

text \<open>Two lookups that throw on the same arguments; their answers may differ everywhere.\<close>

definition sameThrows :: "mismatchLookup \<Rightarrow> mismatchLookup \<Rightarrow> bool" where
  "sameThrows km km' = (\<forall>c p g. isl (km c p g) = isl (km' c p g))"

text \<open>Two states of the loop with as many diagnostics and the same valid results.\<close>

definition sameShape :: "string list \<times> scored list \<Rightarrow> string list \<times> scored list \<Rightarrow> bool" where
  "sameShape st st' = (length (fst st) = length (fst st') \<and> snd st = snd st')"

section \<open>Sample inputs\<close>

definition noComponents :: components where
  "noComponents =
     \<lparr> road = None, square = None, city = None, town = None, village = None, hamlet = None,
       county = None, state = None, state_district = None, postcode = None,
       country_code = None \<rparr>"

definition viaRomaMilano :: candidate where
  "viaRomaMilano =
     \<lparr> components = noComponents \<lparr> road := Some ''Via Roma'', city := Some ''Milano'',
                                     postcode := Some ''20100'' \<rparr>,
       confidence = Some 9, formatted = ''Via Roma, 20100 Milano'' \<rparr>"

definition viaRomaFirenze :: candidate where
  "viaRomaFirenze =
     \<lparr> components = noComponents \<lparr> road := Some ''Via Roma'', city := Some ''Firenze'',
                                     postcode := Some ''50100'' \<rparr>,
       confidence = Some 8, formatted = ''Via Roma, 50100 Firenze'' \<rparr>"

text \<open>A city as a whole, with no road and no square.\<close>

definition romaNoRoad :: candidate where
  "romaNoRoad =
     \<lparr> components = noComponents \<lparr> city := Some ''Roma'', country_code := Some ''it'' \<rparr>,
       confidence = Some 9, formatted = ''Roma, Italia'' \<rparr>"

text \<open>A result with an empty components bag.\<close>

definition unnamedPlace :: candidate where
  "unnamedPlace = \<lparr> components = noComponents, confidence = Some 9, formatted = ''Italia'' \<rparr>"

definition paris8 :: candidate where
  "paris8 =
     \<lparr> components = noComponents \<lparr> city := Some ''Paris'', country_code := Some ''fr'' \<rparr>,
       confidence = Some 8, formatted = ''Paris, France'' \<rparr>"

definition paris7 :: candidate where
  "paris7 =
     \<lparr> components = noComponents \<lparr> city := Some ''Paris'', country_code := Some ''fr'' \<rparr>,
       confidence = Some 7, formatted = ''Paris, France'' \<rparr>"

text \<open>A result that came without a confidence.\<close>

definition romaNoConfidence :: candidate where
  "romaNoConfidence =
     \<lparr> components = noComponents \<lparr> city := Some ''Roma'' \<rparr>,
       confidence = None, formatted = ''Roma'' \<rparr>"

text \<open>A place whose name is a key that every object inherits.\<close>

definition constructorTown :: candidate where
  "constructorTown =
     \<lparr> components = noComponents \<lparr> city := Some ''constructor'', country_code := Some ''it'' \<rparr>,
       confidence = Some 9, formatted = ''constructor, Italia'' \<rparr>"

text \<open>A hamlet of one word in a city of two.\<close>

definition monterotondoHamlet :: candidate where
  "monterotondoHamlet =
     \<lparr> components = noComponents \<lparr> road := Some ''Via Roma'',
                                     city := Some ''Monterotondo Marittimo'',
                                     hamlet := Some ''Monterotondo'' \<rparr>,
       confidence = Some 9, formatted = ''Via Roma, Monterotondo, Monterotondo Marittimo'' \<rparr>"

definition alwaysMismatch :: mismatchLookup where
  "alwaysMismatch c p g = Inr True"

definition neverMismatch :: mismatchLookup where
  "neverMismatch c p g = Inr False"

section \<open>Auxiliary facts\<close>

lemma find_SomeD: "find P xs = Some x \<Longrightarrow> x \<in> set xs \<and> P x"
  by (auto simp: find_Some_iff)

lemma find_exists: "x \<in> set xs \<Longrightarrow> P x \<Longrightarrow> \<exists>y. find P xs = Some y"
  by (cases "find P xs") (auto simp: find_None_iff)

lemma filter_eq_ConsD:
  assumes "filter P xs = y # ys"
  shows "y \<in> set xs \<and> P y"
proof -
  from assms have "y \<in> set (filter P xs)" by simp
  then show ?thesis by simp
qed

lemma splitWs_not_Nil: "splitWs s \<noteq> []"
  by (induction s rule: splitWs.induct) (auto split: list.splits)

lemma length_splitWs_space:
  "isSpace c \<Longrightarrow> 2 \<le> length (splitWs (x @ c # rest))"
proof (induction x)
  case Nil
  have "splitWs (dropWhile isSpace rest) \<noteq> []" by (rule splitWs_not_Nil)
  then have "1 \<le> length (splitWs (dropWhile isSpace rest))"
    by (cases "splitWs (dropWhile isSpace rest)") simp_all
  with Nil show ?case by simp
next
  case (Cons y ys)
  show ?case
  proof (cases "isSpace y")
    case True
    have "splitWs (dropWhile isSpace (ys @ c # rest)) \<noteq> []" by (rule splitWs_not_Nil)
    then have "1 \<le> length (splitWs (dropWhile isSpace (ys @ c # rest)))"
      by (cases "splitWs (dropWhile isSpace (ys @ c # rest))") simp_all
    with True show ?thesis by simp
  next
    case False
    with Cons show ?thesis
      by (cases "splitWs (ys @ c # rest)") simp_all
  qed
qed

lemma startsWith_appendD: "startsWith s p \<Longrightarrow> \<exists>rest. s = p @ rest"
  by (metis append_take_drop_id startsWith_def)

lemma isSpace_space: "isSpace (CHR '' '')"
  by (simp add: isSpace_def)

subsection \<open>The branches on postcode and street\<close>

lemma selectByPostcodeOrStreet_Found:
  assumes "selectByPostcodeOrStreet rs ap = Some (Found c)"
  shows "c \<in> set rs \<and> hasRoadOrSquare c"
  using assms
  by (auto simp: selectByPostcodeOrStreet_def Let_def
           split: if_splits option.splits list.splits
           dest!: find_SomeD filter_eq_ConsD)

lemma selectByPostcodeOrStreet_None:
  assumes "selectByPostcodeOrStreet rs ap = None" and "rs \<noteq> []"
  shows "ap_postcode ap = [] \<and> ap_street ap = [] \<and> (\<forall>r\<in>set rs. \<not> hasRoadOrSquare r)"
  using assms
  by (auto simp: selectByPostcodeOrStreet_def Let_def truthy_def filter_empty_conv
           split: if_splits option.splits list.splits)

lemma selectByPostcodeOrStreet_not_null:
  "selectByPostcodeOrStreet rs ap \<noteq> Some NotFound"
  by (auto simp: selectByPostcodeOrStreet_def Let_def split: if_splits option.splits list.splits)

lemma postcode_branch:
  assumes "rs \<noteq> []" and "truthy (ap_postcode ap)"
  shows "selectByPostcodeOrStreet rs ap =
     (case (if truthy (ap_street ap)
            then find (postcodeAndRoadMatch ap) (filter hasRoadOrSquare rs) else None) of
        Some exactPostcodeAndRoad \<Rightarrow> Some (Found exactPostcodeAndRoad)
      | None \<Rightarrow>
          (case find (postcodeOnlyMatch ap) (filter hasRoadOrSquare rs) of
             Some exactPostcode \<Rightarrow> Some (Found exactPostcode)
           | None \<Rightarrow> Some (Thrown (noPostcodeError ap))))"
  unfolding selectByPostcodeOrStreet_def Let_def using assms by simp

lemma postcode_branch_selects:
  assumes pc: "truthy (ap_postcode ap)"
    and mem: "r0 \<in> set rs" and rs0: "hasRoadOrSquare r0"
    and p0: "postcode (components r0) = Some (ap_postcode ap)"
    and st0: "truthy (ap_street ap) \<longrightarrow> postcodeAndRoadMatch ap r0"
  shows "\<exists>c. selectByPostcodeOrStreet rs ap = Some (Found c) \<and> c \<in> set rs \<and> hasRoadOrSquare c
             \<and> postcode (components c) = Some (ap_postcode ap)
             \<and> (truthy (ap_street ap) \<longrightarrow> postcodeAndRoadMatch ap c)"
proof -
  let ?fs = "filter hasRoadOrSquare rs"
  from mem have ne: "rs \<noteq> []" by auto
  note br = postcode_branch[OF ne pc]
  from mem rs0 have m0: "r0 \<in> set ?fs" by simp
  from pc p0 have po0: "postcodeOnlyMatch ap r0"
    by (simp add: postcodeOnlyMatch_def truthyO_def)
  show ?thesis
  proof (cases "truthy (ap_street ap)")
    case True
    with st0 have "postcodeAndRoadMatch ap r0" by simp
    with find_exists[OF m0, of "postcodeAndRoadMatch ap"]
    obtain c where f: "find (postcodeAndRoadMatch ap) ?fs = Some c"
      by auto
    from find_SomeD[OF f] have c: "c \<in> set rs" "hasRoadOrSquare c" "postcodeAndRoadMatch ap c"
      by simp_all
    from c(3) have "postcode (components c) = Some (ap_postcode ap)"
      by (simp add: postcodeAndRoadMatch_def)
    moreover have "selectByPostcodeOrStreet rs ap = Some (Found c)"
      by (simp add: br True f)
    ultimately show ?thesis using c by blast
  next
    case False
    from find_exists[OF m0, of "postcodeOnlyMatch ap"] po0
    obtain c where f: "find (postcodeOnlyMatch ap) ?fs = Some c"
      by auto
    from find_SomeD[OF f] have c: "c \<in> set rs" "hasRoadOrSquare c" "postcodeOnlyMatch ap c"
      by simp_all
    from c(3) have "postcode (components c) = Some (ap_postcode ap)"
      by (simp add: postcodeOnlyMatch_def)
    moreover have "selectByPostcodeOrStreet rs ap = Some (Found c)"
      by (simp add: br False f)
    ultimately show ?thesis using c False by blast
  qed
qed

lemma cityMatchStrict_wordCount:
  "cityMatchStrict geoName inputName \<Longrightarrow> wordCount geoName \<le> wordCount inputName"
  by (auto simp: cityMatchStrict_def wordCount_def Let_def split: if_splits)

subsection \<open>The scoring loop\<close>

lemma scoringFallback_Nil: "scoringFallback km [] ap = NotFound"
  by (simp add: scoringFallback_def selectScored_def)

lemma street_city_branch_Found:
  assumes "ap_postcode ap = []" and "ap_street ap \<noteq> []" and "ap_city ap \<noteq> []"
    and "findBestResultWith km rs a = Found c" and "ap = parseAddress a"
  shows "roadAndCityMatches (stripRoadType (ap_street ap)) (ap_city ap) c"
proof (cases "rs = []")
  case True
  with assms(4) show ?thesis
    by (simp add: findBestResultWith_def selectByPostcodeOrStreet_def scoringFallback_Nil)
next
  case False
  with assms show ?thesis
    by (auto simp: findBestResultWith_def selectByPostcodeOrStreet_def Let_def truthy_def
             split: option.splits dest!: find_SomeD)
qed

lemma validateAddressMatch_Inl_italian:
  "validateAddressMatch km c ap = Inl e \<Longrightarrow> country_code c = Some ''it''"
  by (auto simp: validateAddressMatch_def split: if_splits)

lemma validateAddressMatch_throw_is_lookup:
  assumes "ap_postcode ap = []" and "validateAddressMatch km c ap = Inl e"
  shows "km (geocodedCityOf c) (orEmpty (ap_province ap)) (orEmpty (county c)) = Inl e"
  using assms
  by (auto simp: validateAddressMatch_def Let_def truthy_def split: if_splits sum.splits)

lemma scoreStep_no_diagnostic:
  assumes "fst (scoreStep km ap st r) = []"
  shows "fst st = [] \<and> lowConfidence r = None"
  using assms
  by (cases st)
     (auto simp: scoreStep_def Let_def split: if_splits sum.splits option.splits prod.splits)

lemma scoreLoop_no_diagnostic:
  "fst (scoreLoop km ap rs st) = [] \<Longrightarrow> fst st = [] \<and> (\<forall>r\<in>set rs. lowConfidence r = None)"
proof (induction rs arbitrary: st)
  case Nil
  then show ?case by simp
next
  case (Cons r rs)
  from Cons.prems have "fst (scoreLoop km ap rs (scoreStep km ap st r)) = []" by simp
  from Cons.IH[OF this]
  have a: "fst (scoreStep km ap st r) = []" and b: "\<forall>r\<in>set rs. lowConfidence r = None"
    by simp_all
  from scoreStep_no_diagnostic[OF a] b show ?case by simp
qed

lemma scoringFallback_no_survivor:
  assumes "scoreLoop km ap rs ([], []) = (es, [])"
  shows "scoringFallback km rs ap =
           (if es \<noteq> []
            then Thrown (''VALIDATION_ERROR: '' @ hd es @ ''. Please verify the entered address.'')
            else (case filter (confidenceAtLeast 8) rs of
                    r # _ \<Rightarrow> Found r
                  | [] \<Rightarrow> NotFound))"
  using assms by (simp add: scoringFallback_def selectScored_def)

subsection \<open>The tag of every thrown message\<close>

lemma selectByPostcodeOrStreet_Thrown:
  "selectByPostcodeOrStreet rs ap = Some (Thrown m) \<Longrightarrow> startsWith m ''VALIDATION_ERROR:''"
  by (auto simp: selectByPostcodeOrStreet_def Let_def noPostcodeError_def noStreetError_def
                 noStreetCityError_def startsWith_def
           split: if_splits option.splits list.splits)

lemma scoringFallback_Thrown:
  "scoringFallback km rs ap = Thrown m \<Longrightarrow> startsWith m ''VALIDATION_ERROR:''"
  by (cases "scoreLoop km ap rs ([], [])")
     (auto simp: scoringFallback_def selectScored_def startsWith_def split: if_splits list.splits)

lemma findBestResultWith_Thrown:
  "findBestResultWith km rs a = Thrown m \<Longrightarrow> startsWith m ''VALIDATION_ERROR:''"
  using selectByPostcodeOrStreet_Thrown scoringFallback_Thrown
  by (auto simp: findBestResultWith_def Let_def split: option.splits)

subsection \<open>Two lookups that throw alike\<close>

lemma validateAddressMatch_sameThrows:
  assumes "sameThrows km km'"
  shows "isl (validateAddressMatch km c ap) = isl (validateAddressMatch km' c ap)
         \<and> (\<forall>b. validateAddressMatch km c ap = Inr b \<longrightarrow> validateAddressMatch km' c ap = Inr b)"
proof -
  have k: "isl (km x y z) = isl (km' x y z)" for x y z
    using assms by (simp add: sameThrows_def)
  show ?thesis
    unfolding validateAddressMatch_def Let_def
    using k[of "geocodedCityOf c" "orEmpty (ap_province ap)" "orEmpty (county c)"]
    by (auto split: sum.splits)
qed

lemma scoreItalian_sameThrows:
  assumes "sameThrows km km'"
  shows "length (fst (scoreItalian km ap r)) = length (fst (scoreItalian km' ap r))
         \<and> snd (scoreItalian km ap r) = snd (scoreItalian km' ap r)"
proof -
  have k: "isl (km x y z) = isl (km' x y z)" for x y z
    using assms by (simp add: sameThrows_def)
  let ?c = "components r"
  from validateAddressMatch_sameThrows[OF assms, of ?c ap]
  have v: "isl (validateAddressMatch km ?c ap) = isl (validateAddressMatch km' ?c ap)"
    and w: "\<And>b. validateAddressMatch km ?c ap = Inr b \<Longrightarrow> validateAddressMatch km' ?c ap = Inr b"
    by blast+
  show ?thesis
  proof (cases "validateAddressMatch km ?c ap")
    case (Inl e)
    with v obtain e' where "validateAddressMatch km' ?c ap = Inl e'"
      by (cases "validateAddressMatch km' ?c ap") auto
    with Inl show ?thesis by (simp add: scoreItalian_def)
  next
    case (Inr b)
    with w have w': "validateAddressMatch km' ?c ap = Inr b" by simp
    show ?thesis
      using Inr w' k[of "geocodedCityOf ?c" "orEmpty (ap_province ap)" "orEmpty (county ?c)"]
      by (cases b; cases "km (geocodedCityOf ?c) (orEmpty (ap_province ap)) (orEmpty (county ?c))";
          cases "km' (geocodedCityOf ?c) (orEmpty (ap_province ap)) (orEmpty (county ?c))")
         (auto simp: scoreItalian_def Let_def split: bool.splits)
  qed
qed

lemma scoreStep_sameThrows:
  assumes "sameThrows km km'" and "sameShape st st'"
  shows "sameShape (scoreStep km ap st r) (scoreStep km' ap st' r)"
proof -
  obtain es vs where st: "st = (es, vs)" by (cases st)
  obtain es' vs' where st': "st' = (es', vs')" by (cases st')
  from assms(2) st st' have l: "length es = length es'" and v: "vs = vs'"
    by (simp_all add: sameShape_def)
  obtain ds m where i: "scoreItalian km ap r = (ds, m)" by (cases "scoreItalian km ap r")
  obtain ds' m' where i': "scoreItalian km' ap r = (ds', m')" by (cases "scoreItalian km' ap r")
  from scoreItalian_sameThrows[OF assms(1), of ap r] i i'
  have "length ds = length ds'" and "m = m'" by simp_all
  then show ?thesis
    using l v i i'
    by (auto simp: st st' scoreStep_def sameShape_def Let_def split: sum.splits option.splits)
qed

lemma scoreLoop_sameThrows:
  assumes "sameThrows km km'"
  shows "sameShape st st' \<Longrightarrow> sameShape (scoreLoop km ap rs st) (scoreLoop km' ap rs st')"
proof (induction rs arbitrary: st st')
  case Nil
  then show ?case by simp
next
  case (Cons r rs)
  then show ?case
    using scoreStep_sameThrows[OF assms] by simp
qed

lemma selectScored_sameShape:
  assumes "sameShape st st'"
  shows "eraseMessage (selectScored rs st) = eraseMessage (selectScored rs st')"
proof -
  obtain es vs where st: "st = (es, vs)" by (cases st)
  obtain es' vs' where st': "st' = (es', vs')" by (cases st')
  from assms st st' have l: "length es = length es'" and v: "vs = vs'"
    by (simp_all add: sameShape_def)
  from l have "(es = []) = (es' = [])" by auto
  then show ?thesis
    using v by (simp add: st st' selectScored_def eraseMessage_def)
qed

subsection \<open>A parsed postcode has five digits\<close>

lemma postcodeMatch_five_digits:
  "postcodeMatch prev s = Some m \<Longrightarrow> length m = 5 \<and> list_all isDigit m"
  by (induction prev s rule: postcodeMatch.induct) (auto split: if_splits)

lemma scanPostcode_five_digits:
  "scanPostcode parts \<noteq> [] \<Longrightarrow>
     length (scanPostcode parts) = 5 \<and> list_all isDigit (scanPostcode parts)"
  by (induction parts)
     (auto simp: postcodeRegexMatch_def split: option.splits dest: postcodeMatch_five_digits)

lemma scanPostcode_finds:
  "part \<in> set parts \<Longrightarrow> postcodeRegexTest part \<Longrightarrow> scanPostcode parts \<noteq> []"
proof (induction parts)
  case Nil
  then show ?case by simp
next
  case (Cons p ps)
  show ?case
  proof (cases "postcodeRegexMatch p")
    case None
    with Cons show ?thesis by (auto simp: postcodeRegexTest_def)
  next
    case (Some m)
    with postcodeMatch_five_digits[of None p m] show ?thesis
      by (auto simp: postcodeRegexMatch_def)
  qed
qed

lemma lastOr_scan:
  "(if truthy (scanPostcode parts) then scanPostcode parts
    else if postcodeRegexTest (partAt parts i) then partAt parts i else []) = scanPostcode parts"
proof (cases "i < length parts")
  case True
  then have "partAt parts i \<in> set parts" by (simp add: partAt_def)
  from scanPostcode_finds[OF this] show ?thesis by (auto simp: truthy_def)
next
  case False
  then have "partAt parts i = []" by (simp add: partAt_def)
  then show ?thesis by (simp add: truthy_def postcodeRegexTest_def postcodeRegexMatch_def)
qed

lemma parseAddress_postcode_five_digits:
  assumes "ap_postcode (parseAddress a) \<noteq> []"
  shows "length (ap_postcode (parseAddress a)) = 5 \<and> list_all isDigit (ap_postcode (parseAddress a))"
proof -
  obtain parts where "ap_postcode (parseAddress a) = scanPostcode parts"
    unfolding parseAddress_def Let_def by (auto simp: lastOr_scan split: if_splits)
  with assms scanPostcode_five_digits[of parts] show ?thesis by simp
qed

subsection \<open>Every returned result is one of the list\<close>

lemma scoreStep_results:
  "result ` set (snd (scoreStep km ap st r)) \<subseteq> insert r (result ` set (snd st))"
  by (cases st)
     (auto simp: scoreStep_def Let_def split: if_splits sum.splits option.splits prod.splits)

lemma scoreLoop_results:
  "result ` set (snd (scoreLoop km ap rs st)) \<subseteq> set rs \<union> result ` set (snd st)"
proof (induction rs arbitrary: st)
  case Nil
  then show ?case by simp
next
  case (Cons r rs)
  from Cons.IH[of "scoreStep km ap st r"] scoreStep_results[of km ap st r]
  show ?case by auto
qed

lemma set_insertScored: "set (insertScored v ws) = insert v (set ws)"
  by (induction ws) auto

lemma set_sortScored: "set (sortScored vs) = set vs"
  by (induction vs) (simp_all add: sortScored_def set_insertScored)

lemma selectScored_member:
  assumes "selectScored rs (es, vs) = Found c"
  shows "c \<in> set rs \<union> result ` set vs"
proof (cases "vs = []")
  case True
  with assms show ?thesis
    by (auto simp: selectScored_def split: if_splits list.splits dest!: filter_eq_ConsD)
next
  case False
  then have "sortScored vs \<noteq> []"
    using set_sortScored[of vs] by (metis set_empty)
  then have "hd (sortScored vs) \<in> set vs"
    using hd_in_set[of "sortScored vs"] by (simp add: set_sortScored)
  with assms False show ?thesis
    by (auto simp: selectScored_def)
qed

lemma findBestResultWith_member:
  assumes "findBestResultWith km rs a = Found c"
  shows "c \<in> set rs"
proof (cases "selectByPostcodeOrStreet rs (parseAddress a)")
  case (Some out)
  with assms show ?thesis
    using selectByPostcodeOrStreet_Found by (auto simp: findBestResultWith_def)
next
  case None
  obtain es vs where st: "scoreLoop km (parseAddress a) rs ([], []) = (es, vs)"
    by (cases "scoreLoop km (parseAddress a) rs ([], [])")
  from None assms have "selectScored rs (es, vs) = Found c"
    by (simp add: findBestResultWith_def scoringFallback_def st)
  from selectScored_member[OF this] scoreLoop_results[of km "parseAddress a" rs "([], [])"] st
  show ?thesis by auto
qed

section \<open>The parser on a doubled road type\<close>

text \<open>
  C7. Parsing "Via Viale Antonio Gramsci, Firenze, FI, 50100" gives the street
  "Via Antonio Gramsci" (the second of the two road types is dropped), the city
  "Firenze", the province "FI" and the postcode "50100".
\<close>

theorem parseAddress_doubled_road_type:
  "parseAddress ''Via Viale Antonio Gramsci, Firenze, FI, 50100'' =
     \<lparr> ap_street = ''Via Antonio Gramsci'', ap_city = ''Firenze'',
       ap_province = Some ''FI'', ap_county = Some ''FI'',
       ap_postcode = ''50100'', ap_country = None \<rparr>"
  by code_simp

section \<open>Word-boundary prefixes in the fuzzy match\<close>

text \<open>
  The pair "Monterotondo" and "Monterotondo Marittimo" is accepted by \<open>fuzzyMatch\<close>:
  the two differ in their number of words, but the shorter one followed by a space is a
  prefix of the longer one, and the longer one has more than one word.
\<close>

theorem fuzzyMatch_monterotondo_accepted:
  "fuzzyMatch ''Monterotondo'' ''Monterotondo Marittimo'' = True"
  by code_simp

lemma fuzzyMatch_prefix_rule:
  assumes "truthy a" and "truthy b"
    and "startsWith (trim (toLowerCase b)) (trim (toLowerCase a) @ '' '')
         \<or> startsWith (trim (toLowerCase a)) (trim (toLowerCase b) @ '' '')"
  shows "fuzzyMatch a b"
proof -
  let ?s1 = "trim (toLowerCase a)" and ?s2 = "trim (toLowerCase b)"
  from assms(3) have "1 < length (splitWs ?s1) \<or> 1 < length (splitWs ?s2)"
  proof
    assume "startsWith ?s2 (?s1 @ '' '')"
    then obtain rest where "?s2 = ?s1 @ CHR '' '' # rest"
      using startsWith_appendD by fastforce
    then have "2 \<le> length (splitWs ?s2)"
      using length_splitWs_space[OF isSpace_space, of ?s1 rest] by simp
    then show ?thesis by simp
  next
    assume "startsWith ?s1 (?s2 @ '' '')"
    then obtain rest where "?s1 = ?s2 @ CHR '' '' # rest"
      using startsWith_appendD by fastforce
    then have "2 \<le> length (splitWs ?s1)"
      using length_splitWs_space[OF isSpace_space, of ?s2 rest] by simp
    then show ?thesis by simp
  qed
  with assms show ?thesis
    by (auto simp: fuzzyMatch_def Let_def)
qed

text \<open>
  C2 (amended). \<open>fuzzyMatch\<close> accepts every pair of non-empty strings of which one,
  lower-cased and trimmed and followed by a space, is a prefix of the other: the count
  of words does not gate this rule, since the longer string then has at least two words.
  So \<open>fuzzyMatch("Monterotondo", "Monterotondo Marittimo")\<close> is true. The pair is
  rejected by the strict city match of the street-with-city branch:
  \<open>cityMatchStrict("Monterotondo Marittimo", "Monterotondo")\<close> is false.
\<close>

theorem fuzzyMatch_word_boundary_prefix:
  "(\<forall>a b. truthy a \<and> truthy b
           \<and> (startsWith (trim (toLowerCase b)) (trim (toLowerCase a) @ '' '')
                \<or> startsWith (trim (toLowerCase a)) (trim (toLowerCase b) @ '' ''))
           \<longrightarrow> fuzzyMatch a b)
   \<and> fuzzyMatch ''Monterotondo'' ''Monterotondo Marittimo''
   \<and> \<not> cityMatchStrict ''Monterotondo Marittimo'' ''Monterotondo''"
proof (intro conjI allI impI)
  fix a b
  assume "truthy a \<and> truthy b
           \<and> (startsWith (trim (toLowerCase b)) (trim (toLowerCase a) @ '' '')
                \<or> startsWith (trim (toLowerCase a)) (trim (toLowerCase b) @ '' ''))"
  then show "fuzzyMatch a b"
    using fuzzyMatch_prefix_rule by blast
next
  show "fuzzyMatch ''Monterotondo'' ''Monterotondo Marittimo''"
    by code_simp
next
  show "\<not> cityMatchStrict ''Monterotondo Marittimo'' ''Monterotondo''"
    by code_simp
qed

theorem fuzzyMatch_word_boundary_prefix_witness:
  "truthy ''Via Roma'' \<and> truthy ''  via roma nord''
   \<and> startsWith (trim (toLowerCase ''  via roma nord'')) (trim (toLowerCase ''Via Roma'') @ '' '')
   \<and> fuzzyMatch ''Via Roma'' ''  via roma nord''"
proof -
  have t: "truthy ''Via Roma'' \<and> truthy ''  via roma nord''"
    by (simp add: truthy_def)
  have p: "startsWith (trim (toLowerCase ''  via roma nord''))
                      (trim (toLowerCase ''Via Roma'') @ '' '')"
    by code_simp
  from fuzzyMatch_word_boundary_prefix
  have "\<forall>a b. truthy a \<and> truthy b
           \<and> (startsWith (trim (toLowerCase b)) (trim (toLowerCase a) @ '' '')
                \<or> startsWith (trim (toLowerCase a)) (trim (toLowerCase b) @ '' ''))
           \<longrightarrow> fuzzyMatch a b"
    by (rule conjunct1)
  with t p have "fuzzyMatch ''Via Roma'' ''  via roma nord''"
    by blast
  with t p show ?thesis by blast
qed

section \<open>Road or square on the result\<close>

text \<open>
  With neither postcode nor street in the address and no result that has a road or a
  square, the scoring runs over the unfiltered list. It returns a result without either
  field, once as the best scored result and once as the last resort on the confidence.
\<close>

theorem unfiltered_fallback_returns_roadless:
  "findBestResult [romaNoRoad] '', Roma'' = Found romaNoRoad
   \<and> \<not> hasRoadOrSquare romaNoRoad
   \<and> findBestResult [unnamedPlace] [] = Found unnamedPlace
   \<and> \<not> hasRoadOrSquare unnamedPlace"
  by code_simp

text \<open>
  C1 (amended). A result returned by \<open>findBestResult\<close> has a road or a square field,
  unless no result of the list has one and the address gave neither a postcode nor a
  street: only then is the unfiltered list scored.
\<close>

theorem returned_has_road_or_square_unless_none_has:
  assumes "findBestResult rs a = Found c"
  shows "hasRoadOrSquare c
         \<or> ((\<forall>r\<in>set rs. \<not> hasRoadOrSquare r)
             \<and> ap_postcode (parseAddress a) = [] \<and> ap_street (parseAddress a) = [])"
proof (cases "selectByPostcodeOrStreet rs (parseAddress a)")
  case (Some out)
  with assms have "out = Found c"
    by (simp add: findBestResult_def findBestResultWith_def)
  with Some show ?thesis
    using selectByPostcodeOrStreet_Found by blast
next
  case None
  with assms have "scoringFallback checkKnownMismatches rs (parseAddress a) = Found c"
    by (simp add: findBestResult_def findBestResultWith_def)
  then have "rs \<noteq> []"
    using scoringFallback_Nil by auto
  with None show ?thesis
    using selectByPostcodeOrStreet_None by blast
qed

theorem returned_has_road_or_square_witness:
  "findBestResult [viaRomaMilano, viaRomaFirenze] ''Via Roma, Firenze'' = Found viaRomaFirenze
   \<and> hasRoadOrSquare viaRomaFirenze"
proof -
  have h: "findBestResult [viaRomaMilano, viaRomaFirenze] ''Via Roma, Firenze'' = Found viaRomaFirenze"
    by code_simp
  have n: "hasRoadOrSquare viaRomaMilano"
    by code_simp
  from returned_has_road_or_square_unless_none_has[OF h] n
  have "hasRoadOrSquare viaRomaFirenze" by auto
  with h show ?thesis by simp
qed

section \<open>Low confidence in the scoring loop\<close>

text \<open>
  A French result of confidence 8 whose city matches the address is discarded for its
  confidence, although the scoring of its fields would have accepted it with one
  matching field; with no other result the selection fails.
\<close>

theorem foreign_low_confidence_discarded:
  "findBestResult [paris8] '', Paris''
     = Thrown ''VALIDATION_ERROR: Low confidence (8/10). Please verify the entered address.''
   \<and> scoreForeign (parseAddress '', Paris'') paris8 = Inr 1"
  by code_simp

text \<open>
  C5 (amended). In the scoring loop a result of confidence below 9 is discarded whatever
  its country code: the loop records the diagnostic "Low confidence (c/10)" and goes on
  to the next result, without scoring any field.
\<close>

theorem low_confidence_discarded_any_country:
  assumes "confidence r = Some c" and "c < 9"
  shows "scoreLoop km ap (r # rs) (errs, valid)
           = scoreLoop km ap rs (errs @ [lowConfidenceError c], valid)"
  using assms by (simp add: scoreStep_def lowConfidence_def)

theorem low_confidence_discarded_witness:
  "confidence paris8 = Some 8
   \<and> country_code (components paris8) = Some ''fr''
   \<and> scoreLoop checkKnownMismatches (parseAddress '', Paris'') [paris8] ([], [])
       = ([''Low confidence (8/10)''], [])"
proof -
  have c: "confidence paris8 = Some 8" by (simp add: paris8_def)
  have l: "(8::int) < 9" by simp
  have f: "country_code (components paris8) = Some ''fr''"
    by (simp add: paris8_def noComponents_def)
  have m: "lowConfidenceError 8 = ''Low confidence (8/10)''"
    by code_simp
  from low_confidence_discarded_any_country[OF c l, of checkKnownMismatches
         "parseAddress '', Paris''" "[]" "[]" "[]"] m
  have "scoreLoop checkKnownMismatches (parseAddress '', Paris'') [paris8] ([], [])
          = ([''Low confidence (8/10)''], [])"
    by simp
  with c f show ?thesis by simp
qed

section \<open>The postcode comes first\<close>

text \<open>
  C6. When the address parses to a postcode and the list holds a result with a road or a
  square whose postcode is the parsed one (and whose road fuzzy-matches the parsed
  street, when there is a street), \<open>findBestResult\<close> returns a result of that kind:
  one of the list, with a road or a square, with the parsed postcode, and with a road
  matching the street when there is one. It never returns a result with another
  postcode, whatever the confidence of the others. For "Via Roma, Firenze, 50100" and
  the results in Milano (20100, confidence 9) and Firenze (50100, confidence 8) it
  returns the second.
\<close>

theorem postcode_match_selected:
  "(\<forall>a rs r0.
      truthy (ap_postcode (parseAddress a))
      \<and> r0 \<in> set rs \<and> hasRoadOrSquare r0
      \<and> postcode (components r0) = Some (ap_postcode (parseAddress a))
      \<and> (truthy (ap_street (parseAddress a)) \<longrightarrow>
            truthyO (road (components r0))
            \<and> fuzzyMatch (orEmpty (road (components r0))) (ap_street (parseAddress a)))
      \<longrightarrow> (\<exists>c. findBestResult rs a = Found c \<and> c \<in> set rs \<and> hasRoadOrSquare c
                \<and> postcode (components c) = Some (ap_postcode (parseAddress a))
                \<and> (truthy (ap_street (parseAddress a)) \<longrightarrow>
                      truthyO (road (components c))
                      \<and> fuzzyMatch (orEmpty (road (components c))) (ap_street (parseAddress a)))))
   \<and> findBestResult [viaRomaMilano, viaRomaFirenze] ''Via Roma, Firenze, 50100''
       = Found viaRomaFirenze"
proof (intro conjI allI impI)
  fix a rs r0
  let ?ap = "parseAddress a"
  assume h: "truthy (ap_postcode ?ap)
      \<and> r0 \<in> set rs \<and> hasRoadOrSquare r0
      \<and> postcode (components r0) = Some (ap_postcode ?ap)
      \<and> (truthy (ap_street ?ap) \<longrightarrow>
            truthyO (road (components r0))
            \<and> fuzzyMatch (orEmpty (road (components r0))) (ap_street ?ap))"
  then have pc: "truthy (ap_postcode ?ap)" and mem: "r0 \<in> set rs" and rs0: "hasRoadOrSquare r0"
    and p0: "postcode (components r0) = Some (ap_postcode ?ap)"
    by simp_all
  from h have st0: "truthy (ap_street ?ap) \<longrightarrow> postcodeAndRoadMatch ?ap r0"
    by (simp add: postcodeAndRoadMatch_def truthyO_def)
  from postcode_branch_selects[OF pc mem rs0 p0 st0]
  obtain c where s: "selectByPostcodeOrStreet rs ?ap = Some (Found c)"
    and c: "c \<in> set rs" "hasRoadOrSquare c" "postcode (components c) = Some (ap_postcode ?ap)"
           "truthy (ap_street ?ap) \<longrightarrow> postcodeAndRoadMatch ?ap c"
    by blast
  from s have "findBestResult rs a = Found c"
    by (simp add: findBestResult_def findBestResultWith_def)
  moreover from c(4) have "truthy (ap_street ?ap) \<longrightarrow>
      truthyO (road (components c)) \<and> fuzzyMatch (orEmpty (road (components c))) (ap_street ?ap)"
    by (simp add: postcodeAndRoadMatch_def)
  ultimately show "\<exists>c. findBestResult rs a = Found c \<and> c \<in> set rs \<and> hasRoadOrSquare c
                \<and> postcode (components c) = Some (ap_postcode ?ap)
                \<and> (truthy (ap_street ?ap) \<longrightarrow>
                      truthyO (road (components c))
                      \<and> fuzzyMatch (orEmpty (road (components c))) (ap_street ?ap))"
    using c by blast
next
  show "findBestResult [viaRomaMilano, viaRomaFirenze] ''Via Roma, Firenze, 50100''
          = Found viaRomaFirenze"
    by code_simp
qed

theorem postcode_match_selected_witness:
  "ap_postcode (parseAddress ''Via Roma, 50100'') = ''50100''
   \<and> ap_street (parseAddress ''Via Roma, 50100'') = ''Via Roma''
   \<and> (\<exists>c. findBestResult [viaRomaFirenze, viaRomaMilano, viaRomaFirenze] ''Via Roma, 50100'' = Found c
          \<and> postcode (components c) = Some ''50100'')"
proof -
  let ?a = "''Via Roma, 50100''"
  let ?rs = "[viaRomaFirenze, viaRomaMilano, viaRomaFirenze]"
  have p: "ap_postcode (parseAddress ?a) = ''50100''"
    and s: "ap_street (parseAddress ?a) = ''Via Roma''"
    by code_simp+
  have h: "truthy (ap_postcode (parseAddress ?a))
      \<and> viaRomaFirenze \<in> set ?rs \<and> hasRoadOrSquare viaRomaFirenze
      \<and> postcode (components viaRomaFirenze) = Some (ap_postcode (parseAddress ?a))
      \<and> (truthy (ap_street (parseAddress ?a)) \<longrightarrow>
            truthyO (road (components viaRomaFirenze))
            \<and> fuzzyMatch (orEmpty (road (components viaRomaFirenze))) (ap_street (parseAddress ?a)))"
    unfolding p s by code_simp
  from postcode_match_selected have "\<forall>a rs r0.
      truthy (ap_postcode (parseAddress a))
      \<and> r0 \<in> set rs \<and> hasRoadOrSquare r0
      \<and> postcode (components r0) = Some (ap_postcode (parseAddress a))
      \<and> (truthy (ap_street (parseAddress a)) \<longrightarrow>
            truthyO (road (components r0))
            \<and> fuzzyMatch (orEmpty (road (components r0))) (ap_street (parseAddress a)))
      \<longrightarrow> (\<exists>c. findBestResult rs a = Found c \<and> c \<in> set rs \<and> hasRoadOrSquare c
                \<and> postcode (components c) = Some (ap_postcode (parseAddress a))
                \<and> (truthy (ap_street (parseAddress a)) \<longrightarrow>
                      truthyO (road (components c))
                      \<and> fuzzyMatch (orEmpty (road (components c))) (ap_street (parseAddress a))))"
    by (rule conjunct1)
  then have "\<exists>c. findBestResult ?rs ?a = Found c \<and> c \<in> set ?rs \<and> hasRoadOrSquare c
                \<and> postcode (components c) = Some (ap_postcode (parseAddress ?a))
                \<and> (truthy (ap_street (parseAddress ?a)) \<longrightarrow>
                      truthyO (road (components c))
                      \<and> fuzzyMatch (orEmpty (road (components c))) (ap_street (parseAddress ?a)))"
    using h by blast
  then have "\<exists>c. findBestResult ?rs ?a = Found c \<and> postcode (components c) = Some ''50100''"
    unfolding p by blast
  with p s show ?thesis by blast
qed

section \<open>The strict city match\<close>

text \<open>
  A result whose city has more words than the parsed city is returned all the same when
  another of its place fields matches: the four fields are tried one after the other,
  and here the hamlet matches.
\<close>

theorem longer_city_returned_on_hamlet:
  "findBestResult [monterotondoHamlet] ''Via Roma, Monterotondo'' = Found monterotondoHamlet
   \<and> ap_postcode (parseAddress ''Via Roma, Monterotondo'') = []
   \<and> ap_street (parseAddress ''Via Roma, Monterotondo'') = ''Via Roma''
   \<and> ap_city (parseAddress ''Via Roma, Monterotondo'') = ''Monterotondo''
   \<and> city (components monterotondoHamlet) = Some ''Monterotondo Marittimo''
   \<and> wordCount ''Monterotondo'' < wordCount ''Monterotondo Marittimo''"
  by code_simp

text \<open>
  C10 (amended). \<open>cityMatchStrict\<close> rejects every name of a result that has more words
  than the parsed city, whether or not the parsed city is a prefix of it at a word
  boundary. So in the branch for an address with street and city and no postcode, a
  result is returned only on the strength of one of its fields city, town, village and
  hamlet that passes the strict match and has no more words than the parsed city: a
  result whose names all have more words is never returned there, one with a longer
  name beside a matching one can be.
\<close>

theorem strict_city_rejects_longer_names:
  "(wordCount inputName < wordCount geoName \<longrightarrow> \<not> cityMatchStrict geoName inputName)
   \<and> (ap_postcode (parseAddress a) = [] \<and> ap_street (parseAddress a) \<noteq> []
        \<and> ap_city (parseAddress a) \<noteq> [] \<and> findBestResult rs a = Found c
      \<longrightarrow> (\<exists>f \<in> set [city (components c), town (components c), village (components c),
                          hamlet (components c)].
             truthyO f \<and> cityMatchStrict (orEmpty f) (ap_city (parseAddress a))
             \<and> wordCount (orEmpty f) \<le> wordCount (ap_city (parseAddress a))))"
proof (intro conjI impI)
  assume "wordCount inputName < wordCount geoName"
  then show "\<not> cityMatchStrict geoName inputName"
    using cityMatchStrict_wordCount by fastforce
next
  assume h: "ap_postcode (parseAddress a) = [] \<and> ap_street (parseAddress a) \<noteq> []
        \<and> ap_city (parseAddress a) \<noteq> [] \<and> findBestResult rs a = Found c"
  then have "roadAndCityMatches (stripRoadType (ap_street (parseAddress a)))
               (ap_city (parseAddress a)) c"
    using street_city_branch_Found[of "parseAddress a" checkKnownMismatches rs a c]
    by (simp add: findBestResult_def)
  then show "\<exists>f \<in> set [city (components c), town (components c), village (components c),
                          hamlet (components c)].
             truthyO f \<and> cityMatchStrict (orEmpty f) (ap_city (parseAddress a))
             \<and> wordCount (orEmpty f) \<le> wordCount (ap_city (parseAddress a))"
    using cityMatchStrict_wordCount
    by (auto simp: roadAndCityMatches_def placeMatches_def)
qed

theorem strict_city_rejects_longer_names_witness:
  "wordCount ''Roma'' < wordCount ''Fiano Romano''
   \<and> \<not> cityMatchStrict ''Fiano Romano'' ''Roma''
   \<and> findBestResult [viaRomaMilano] ''Via Roma, Milano'' = Found viaRomaMilano
   \<and> (\<exists>f \<in> set [city (components viaRomaMilano), town (components viaRomaMilano),
                  village (components viaRomaMilano), hamlet (components viaRomaMilano)].
         truthyO f \<and> wordCount (orEmpty f) \<le> wordCount ''Milano'')"
proof -
  let ?a = "''Via Roma, Milano''"
  have w: "wordCount ''Roma'' < wordCount ''Fiano Romano''"
    by code_simp
  have p: "ap_postcode (parseAddress ?a) = []" "ap_street (parseAddress ?a) \<noteq> []"
          "ap_city (parseAddress ?a) = ''Milano''"
    by code_simp+
  have f: "findBestResult [viaRomaMilano] ?a = Found viaRomaMilano"
    by code_simp
  note t = strict_city_rejects_longer_names[of "''Roma''" "''Fiano Romano''" ?a "[viaRomaMilano]"
             viaRomaMilano]
  from t w have r: "\<not> cityMatchStrict ''Fiano Romano'' ''Roma''" by blast
  from t p f have "\<exists>f \<in> set [city (components viaRomaMilano), town (components viaRomaMilano),
                  village (components viaRomaMilano), hamlet (components viaRomaMilano)].
         truthyO f \<and> cityMatchStrict (orEmpty f) ''Milano''
         \<and> wordCount (orEmpty f) \<le> wordCount ''Milano''"
    by simp
  then have "\<exists>f \<in> set [city (components viaRomaMilano), town (components viaRomaMilano),
                  village (components viaRomaMilano), hamlet (components viaRomaMilano)].
         truthyO f \<and> wordCount (orEmpty f) \<le> wordCount ''Milano''"
    by blast
  with w r f show ?thesis by blast
qed

section \<open>The lookup in the mismatch table\<close>

text \<open>
  Two lookups that throw on the same arguments lead to the same result or to a failure
  alike, whatever they answer: \<open>validateAddressMatch\<close> returns false on either answer,
  and the loop records one diagnostic on either answer.
\<close>

lemma lookups_throwing_alike_agree:
  assumes "sameThrows km km'"
  shows "eraseMessage (findBestResultWith km rs a) = eraseMessage (findBestResultWith km' rs a)"
proof -
  have "sameShape ([], []) ([], [])"
    by (simp add: sameShape_def)
  then have "sameShape (scoreLoop km (parseAddress a) rs ([], []))
                       (scoreLoop km' (parseAddress a) rs ([], []))"
    using scoreLoop_sameThrows[OF assms] by blast
  then have "eraseMessage (scoringFallback km rs (parseAddress a))
             = eraseMessage (scoringFallback km' rs (parseAddress a))"
    unfolding scoringFallback_def by (rule selectScored_sameShape)
  then show ?thesis
    by (simp add: findBestResultWith_def Let_def split: option.splits)
qed

text \<open>
  C8. The answer of the lookup is meant to change the wording of a diagnostic only, never
  which result is returned nor whether the selection fails. For a city named
  "constructor" the code breaks this: the table is an object literal, the lookup of the
  city finds the inherited \<open>constructor\<close> and the call of its \<open>includes\<close> throws. The
  loop records the error as a diagnostic and the selection fails, while with a lookup
  that answers, yes or no, the same result is returned.
\<close>

theorem lookup_throw_fails_selection:
  "checkKnownMismatches ''constructor'' ''Milano'' [] = Inl notAFunction
   \<and> findBestResult [constructorTown] '', constructor, Milano''
       = Thrown (''VALIDATION_ERROR: '' @ notAFunction @ ''. Please verify the entered address.'')
   \<and> findBestResultWith alwaysMismatch [constructorTown] '', constructor, Milano''
       = Found constructorTown
   \<and> findBestResultWith neverMismatch [constructorTown] '', constructor, Milano''
       = Found constructorTown"
  by code_simp

section \<open>No surviving result and no diagnostic\<close>

text \<open>
  A result without a confidence and without a country code, for an address with a city
  only: the scoring is reached, the loop leaves no valid result and no diagnostic, and no
  result has confidence 8 or more. \<open>findBestResult\<close> returns \<open>null\<close>, and \<open>geocode\<close>
  reports it under the tag \<open>VALIDATION_ERROR\<close>, with no diagnostic collected.
\<close>

theorem null_reported_as_validation_error:
  "selectByPostcodeOrStreet [romaNoConfidence] (parseAddress '', Roma'') = None
   \<and> scoreLoop checkKnownMismatches (parseAddress '', Roma'') [romaNoConfidence] ([], [])
       = ([], [])
   \<and> filter (confidenceAtLeast 8) [romaNoConfidence] = []
   \<and> findBestResult [romaNoConfidence] '', Roma'' = NotFound
   \<and> geocodeResults [romaNoConfidence] '', Roma''
       = Inl ''VALIDATION_ERROR: Invalid or not found address. Please try again.''"
  by code_simp

text \<open>
  C3 (amended). For a non-empty list that reaches the scoring and leaves it with no
  valid result: if diagnostics were collected, \<open>geocode\<close> fails with
  \<open>VALIDATION_ERROR\<close> and the first diagnostic; if none was collected, the first result
  with confidence 8 or more is returned when there is one, and otherwise
  \<open>findBestResult\<close> returns \<open>null\<close>, which \<open>geocode\<close> reports as
  "VALIDATION_ERROR: Invalid or not found address." So a \<open>VALIDATION_ERROR\<close> also
  arises without any diagnostic, and every error reported for a non-empty list carries
  that tag: \<open>NO_RESULTS\<close> is kept for the empty list.
\<close>

theorem no_survivor_outcome:
  assumes "rs \<noteq> []"
  shows "(\<forall>e. geocodeResults rs a = Inl e \<longrightarrow> startsWith e ''VALIDATION_ERROR:'')
         \<and> (\<forall>es. selectByPostcodeOrStreet rs (parseAddress a) = None
                 \<and> scoreLoop checkKnownMismatches (parseAddress a) rs ([], []) = (es, [])
               \<longrightarrow> geocodeResults rs a =
                     (if es \<noteq> []
                      then Inl (''VALIDATION_ERROR: '' @ hd es
                                @ ''. Please verify the entered address.'')
                      else (case filter (confidenceAtLeast 8) rs of
                              r # _ \<Rightarrow> Inr r
                            | [] \<Rightarrow> Inl invalidOrNotFound)))"
proof (intro conjI allI impI)
  fix e
  assume g: "geocodeResults rs a = Inl e"
  have v: "startsWith invalidOrNotFound ''VALIDATION_ERROR:''"
    by (simp add: invalidOrNotFound_def startsWith_def)
  from g assms have "reportOutcome (findBestResult rs a) = Inl e"
    by (simp add: geocodeResults_def)
  then show "startsWith e ''VALIDATION_ERROR:''"
    using v by (auto simp: reportOutcome_def split: outcome.splits if_splits)
next
  fix es
  let ?ap = "parseAddress a"
  assume h: "selectByPostcodeOrStreet rs ?ap = None
             \<and> scoreLoop checkKnownMismatches ?ap rs ([], []) = (es, [])"
  then have f: "findBestResult rs a = scoringFallback checkKnownMismatches rs ?ap"
    by (simp add: findBestResult_def findBestResultWith_def)
  from h have l: "scoreLoop checkKnownMismatches ?ap rs ([], []) = (es, [])"
    by simp
  have p: "startsWith (''VALIDATION_ERROR: '' @ hd es @ ''. Please verify the entered address.'')
             ''VALIDATION_ERROR:''"
    by (simp add: startsWith_def)
  show "geocodeResults rs a =
          (if es \<noteq> []
           then Inl (''VALIDATION_ERROR: '' @ hd es @ ''. Please verify the entered address.'')
           else (case filter (confidenceAtLeast 8) rs of
                   r # _ \<Rightarrow> Inr r
                 | [] \<Rightarrow> Inl invalidOrNotFound))"
  proof (cases "es = []")
    case True
    with assms f scoringFallback_no_survivor[OF l] show ?thesis
      by (simp add: geocodeResults_def reportOutcome_def split: list.splits)
  next
    case False
    with assms f scoringFallback_no_survivor[OF l] p show ?thesis
      by (simp add: geocodeResults_def reportOutcome_def)
  qed
qed

theorem no_survivor_outcome_witness:
  "geocodeResults [romaNoConfidence] '', Roma'' = Inl invalidOrNotFound
   \<and> geocodeResults [unnamedPlace] '', Roma'' = Inr unnamedPlace
   \<and> geocodeResults [paris7] '', Paris''
       = Inl ''VALIDATION_ERROR: Low confidence (7/10). Please verify the entered address.''"
proof -
  have n1: "[romaNoConfidence] \<noteq> []" and n2: "[unnamedPlace] \<noteq> []" and n3: "[paris7] \<noteq> []"
    by simp_all
  have h1: "selectByPostcodeOrStreet [romaNoConfidence] (parseAddress '', Roma'') = None
            \<and> scoreLoop checkKnownMismatches (parseAddress '', Roma'') [romaNoConfidence] ([], [])
                = ([], [])"
    by code_simp
  have h2: "selectByPostcodeOrStreet [unnamedPlace] (parseAddress '', Roma'') = None
            \<and> scoreLoop checkKnownMismatches (parseAddress '', Roma'') [unnamedPlace] ([], [])
                = ([], [])"
    by code_simp
  have h3: "selectByPostcodeOrStreet [paris7] (parseAddress '', Paris'') = None
            \<and> scoreLoop checkKnownMismatches (parseAddress '', Paris'') [paris7] ([], [])
                = ([''Low confidence (7/10)''], [])"
    by code_simp
  have f1: "filter (confidenceAtLeast 8) [romaNoConfidence] = []"
    by code_simp
  have f2: "filter (confidenceAtLeast 8) [unnamedPlace] = [unnamedPlace]"
    by code_simp
  from no_survivor_outcome[OF n1, of "'', Roma''"] h1 f1
  have g1: "geocodeResults [romaNoConfidence] '', Roma'' = Inl invalidOrNotFound"
    by simp
  from no_survivor_outcome[OF n2, of "'', Roma''"] h2 f2
  have g2: "geocodeResults [unnamedPlace] '', Roma'' = Inr unnamedPlace"
    by simp
  from no_survivor_outcome[OF n3, of "'', Paris''"] h3
  have g3: "geocodeResults [paris7] '', Paris''
       = Inl ''VALIDATION_ERROR: Low confidence (7/10). Please verify the entered address.''"
    by simp
  from g1 g2 g3 show ?thesis by simp
qed

end
